theory Spec2Isabelle
  imports Complex_Main
begin

section \<open>Phase-synchrony measures of \<open>erp_phase_analysis.py\<close>\<close>

text \<open>
  The module computes four measures (PLV, iPLV, PLI, wPLI) between two channels of a
  three-dimensional array indexed \<open>[trial, channel, sample]\<close>.

  Numbers: a NumPy \<open>float64\<close> is modelled as an exact \<open>real\<close> and a \<open>complex128\<close> as an
  exact \<open>complex\<close>; rounding and signed zeros are not modelled, so no property that
  depends on them (such as a residue of rounding being exactly zero, or a bound met
  with equality) is stated here. The special values that the code can create
  from finite inputs are modelled where they arise: the quotient of \<open>num / denom\<close> in
  \<open>calculate_wpli\<close> is an \<open>npfloat\<close>, which can be \<open>NaN\<close> or an infinity.

  Arrays: an array is a nested list, outermost axis first. A nested list cannot carry the
  shape of an array whose first axis is empty, so arrays with no trial are not represented.
\<close>

subsection \<open>Data model\<close>

type_synonym tensor = "real list list list"

datatype error = IndexError | ValueError

datatype npfloat = Fin real | PInf | NInf | NaN

definition n_trials :: "tensor \<Rightarrow> nat" where
  "n_trials data = length data"

definition n_channels :: "tensor \<Rightarrow> nat" where
  "n_channels data = (case data of [] \<Rightarrow> 0 | trial # _ \<Rightarrow> length trial)"

definition n_samples :: "tensor \<Rightarrow> nat" where
  "n_samples data =
     (case data of [] \<Rightarrow> 0
      | trial # _ \<Rightarrow> (case trial of [] \<Rightarrow> 0 | row # _ \<Rightarrow> length row))"

text \<open>
  A well-formed tensor is rectangular, has at least one trial and at least one sample per
  row (the input constraint of the analytic-signal helper).
\<close>

definition well_formed :: "tensor \<Rightarrow> bool" where
  "well_formed data \<longleftrightarrow>
     data \<noteq> [] \<and> 0 < n_samples data \<and>
     (\<forall>trial \<in> set data. length trial = n_channels data \<and>
        (\<forall>row \<in> set trial. length row = n_samples data))"

definition valid_channel :: "tensor \<Rightarrow> int \<Rightarrow> bool" where
  "valid_channel data ch \<longleftrightarrow> 0 \<le> ch \<and> ch < int (n_channels data)"

subsection \<open>NumPy and SciPy operations used by the module\<close>

text \<open>
  \<open>data[:, ch, :]\<close>: an integer index on axis 1. NumPy adds the axis length to a negative
  index and raises \<open>IndexError\<close> when the result is still out of bounds.
\<close>

definition index_channel :: "tensor \<Rightarrow> int \<Rightarrow> error + real list list" where
  "index_channel data ch =
     (let C = int (n_channels data);
          j = (if ch < 0 then ch + C else ch)
      in if 0 \<le> j \<and> j < C then Inr (map (\<lambda>trial. trial ! nat j) data)
         else Inl IndexError)"

text \<open>Length of the last axis of a two-dimensional array.\<close>

definition shape_last :: "'a list list \<Rightarrow> nat" where
  "shape_last a = (case a of [] \<Rightarrow> 0 | row # _ \<Rightarrow> length row)"

text \<open>
  \<open>scipy.fft.fft\<close> and \<open>scipy.fft.ifft\<close> of one row:
  \<open>y[k] = sum_n x[n] exp(-2 pi i k n / N)\<close> and
  \<open>x[n] = (1/N) sum_k y[k] exp(2 pi i k n / N)\<close>.
\<close>

definition fft :: "complex list \<Rightarrow> complex list" where
  "fft x =
     (let N = length x
      in map (\<lambda>k. \<Sum>n<N. x ! n * cis (- (2 * pi * real k * real n / real N))) [0..<N])"

definition ifft :: "complex list \<Rightarrow> complex list" where
  "ifft y =
     (let N = length y
      in map (\<lambda>n. (\<Sum>k<N. y ! k * cis (2 * pi * real k * real n / real N)) / of_nat N)
           [0..<N])"

text \<open>
  The one-sided multiplier of \<open>scipy.signal.hilbert\<close>:
  for even \<open>N\<close>, \<open>h[0] = h[N/2] = 1\<close> and \<open>h[1:N/2] = 2\<close>;
  for odd \<open>N\<close>, \<open>h[0] = 1\<close> and \<open>h[1:(N+1)/2] = 2\<close>; zero elsewhere.
\<close>

definition hilbert_h :: "nat \<Rightarrow> nat \<Rightarrow> complex" where
  "hilbert_h N k =
     (if even N then
        (if k = 0 \<or> k = N div 2 then 1 else if 1 \<le> k \<and> k < N div 2 then 2 else 0)
      else
        (if k = 0 then 1 else if 1 \<le> k \<and> k < (N + 1) div 2 then 2 else 0))"

definition hilbert_row :: "real list \<Rightarrow> complex list" where
  "hilbert_row x =
     (let N = length x;
          Xf = fft (map complex_of_real x)
      in ifft (map (\<lambda>k. Xf ! k * hilbert_h N k) [0..<N]))"

text \<open>
  \<open>scipy.signal.hilbert(x)\<close> on a two-dimensional array, default \<open>axis=-1\<close>: it raises
  \<open>ValueError\<close> when the last axis is empty, and transforms along the last axis, that
  is, every row on its own.
\<close>

definition hilbert :: "real list list \<Rightarrow> error + complex list list" where
  "hilbert x = (if shape_last x \<le> 0 then Inl ValueError else Inr (map hilbert_row x))"

text \<open>
  \<open>np.angle(z) = arctan2(z.imag, z.real)\<close>, in \<open>(-pi, pi]\<close>, and \<open>0\<close> at \<open>z = 0\<close>.
  There is no negative zero in \<open>real\<close>: on the negative real axis the value is \<open>pi\<close>,
  where NumPy gives \<open>-pi\<close> for an imaginary part of \<open>-0.0\<close>.
\<close>

definition arctan2 :: "real \<Rightarrow> real \<Rightarrow> real" where
  "arctan2 y x =
     (if 0 < x then arctan (y / x)
      else if x < 0 then (if 0 \<le> y then arctan (y / x) + pi else arctan (y / x) - pi)
      else if 0 < y then pi / 2
      else if y < 0 then - (pi / 2)
      else 0)"

definition np_angle :: "complex \<Rightarrow> real" where
  "np_angle z = arctan2 (Im z) (Re z)"

text \<open>\<open>np.mean(a, axis=0)\<close> of a two-dimensional array: the mean of every column.\<close>

definition mean_axis0 :: "'a::field list list \<Rightarrow> 'a list" where
  "mean_axis0 a =
     map (\<lambda>s. (\<Sum>row\<leftarrow>a. row ! s) / of_nat (length a)) [0..<shape_last a]"

text \<open>
  Division of two finite floats: a zero divisor gives \<open>NaN\<close> for a zero dividend and a
  signed infinity otherwise (NumPy warns and returns the value; it does not raise).
\<close>

definition np_divide :: "real \<Rightarrow> real \<Rightarrow> npfloat" where
  "np_divide x y =
     (if y = 0 then (if x = 0 then NaN else if 0 < x then PInf else NInf)
      else Fin (x / y))"

subsection \<open>The module's functions\<close>

definition calculate_cross_spectrum_hilbert ::
  "tensor \<Rightarrow> int \<Rightarrow> int \<Rightarrow> error + complex list list" where
  "calculate_cross_spectrum_hilbert data chs1 chs2 =
     (case index_channel data chs1 of Inl e \<Rightarrow> Inl e | Inr data_chs1 \<Rightarrow>
      (case index_channel data chs2 of Inl e \<Rightarrow> Inl e | Inr data_chs2 \<Rightarrow>
      (case hilbert data_chs1 of Inl e \<Rightarrow> Inl e | Inr analytic_signal_ch1 \<Rightarrow>
      (case hilbert data_chs2 of Inl e \<Rightarrow> Inl e | Inr analytic_signal_ch2 \<Rightarrow>
        Inr (map2 (map2 (*)) analytic_signal_ch1 (map (map cnj) analytic_signal_ch2))))))"

definition calculate_plv :: "tensor \<Rightarrow> int \<Rightarrow> int \<Rightarrow> error + real list" where
  "calculate_plv data ch1 ch2 =
     (case index_channel data ch1 of Inl e \<Rightarrow> Inl e | Inr data_ch1 \<Rightarrow>
      (case index_channel data ch2 of Inl e \<Rightarrow> Inl e | Inr data_ch2 \<Rightarrow>
      (case hilbert data_ch1 of Inl e \<Rightarrow> Inl e | Inr analytic_signal_ch1 \<Rightarrow>
      (case hilbert data_ch2 of Inl e \<Rightarrow> Inl e | Inr analytic_signal_ch2 \<Rightarrow>
        (let phase_difference =
               map2 (map2 (-)) (map (map np_angle) analytic_signal_ch1)
                 (map (map np_angle) analytic_signal_ch2);
             complex_phase_difference =
               map (map (\<lambda>x. exp (\<i> * complex_of_real x))) phase_difference;
             mean_vector = mean_axis0 complex_phase_difference;
             plv = map cmod mean_vector
         in Inr plv)))))"

definition calculate_iplv :: "tensor \<Rightarrow> int \<Rightarrow> int \<Rightarrow> error + real list" where
  "calculate_iplv data ch1 ch2 =
     (case index_channel data ch1 of Inl e \<Rightarrow> Inl e | Inr data_ch1 \<Rightarrow>
      (case index_channel data ch2 of Inl e \<Rightarrow> Inl e | Inr data_ch2 \<Rightarrow>
      (case hilbert data_ch1 of Inl e \<Rightarrow> Inl e | Inr analytic_signal_ch1 \<Rightarrow>
      (case hilbert data_ch2 of Inl e \<Rightarrow> Inl e | Inr analytic_signal_ch2 \<Rightarrow>
        (let phase_difference =
               map2 (map2 (-)) (map (map np_angle) analytic_signal_ch1)
                 (map (map np_angle) analytic_signal_ch2);
             complex_phase_difference =
               map (map (\<lambda>x. exp (\<i> * complex_of_real x))) phase_difference;
             imag_phase_difference = map (map Im) complex_phase_difference;
             mean_vector = mean_axis0 imag_phase_difference;
             iplv = map abs mean_vector
         in Inr iplv)))))"

definition calculate_pli :: "tensor \<Rightarrow> int \<Rightarrow> int \<Rightarrow> error + real list" where
  "calculate_pli data ch1 ch2 =
     (case index_channel data ch1 of Inl e \<Rightarrow> Inl e | Inr data_ch1 \<Rightarrow>
      (case index_channel data ch2 of Inl e \<Rightarrow> Inl e | Inr data_ch2 \<Rightarrow>
      (case hilbert data_ch1 of Inl e \<Rightarrow> Inl e | Inr analytic_signal_ch1 \<Rightarrow>
      (case hilbert data_ch2 of Inl e \<Rightarrow> Inl e | Inr analytic_signal_ch2 \<Rightarrow>
        (let phase_difference =
               map2 (map2 (-)) (map (map np_angle) analytic_signal_ch1)
                 (map (map np_angle) analytic_signal_ch2);
             complex_phase_difference = map (map sgn) phase_difference;
             mean_vector = mean_axis0 complex_phase_difference;
             pli = map abs mean_vector
         in Inr pli)))))"

definition calculate_wpli :: "tensor \<Rightarrow> int \<Rightarrow> int \<Rightarrow> error + npfloat list" where
  "calculate_wpli data ch1 ch2 =
     (case calculate_cross_spectrum_hilbert data ch1 ch2 of Inl e \<Rightarrow> Inl e | Inr s \<Rightarrow>
        (let s_imag = map (map Im) s;
             num = map abs (mean_axis0 (map (map (\<lambda>x. \<bar>x\<bar> * sgn x)) s_imag));
             denom = mean_axis0 (map (map abs) s_imag);
             wpli = map2 np_divide num denom
         in Inr wpli))"

text \<open>
  The value of the source's variable \<open>analytic_signal_ch\<close>: \<open>hilbert(data[:, ch, :])\<close>.
\<close>

definition analytic_signal :: "tensor \<Rightarrow> int \<Rightarrow> error + complex list list" where
  "analytic_signal data ch =
     (case index_channel data ch of Inl e \<Rightarrow> Inl e | Inr data_ch \<Rightarrow> hilbert data_ch)"

subsection \<open>The measures as the specification words them\<close>

text \<open>
  The specification describes every measure sample by sample: a per-trial quantity at
  trial \<open>t\<close> and sample \<open>s\<close>, its arithmetic mean over the trials, and the magnitude of
  that mean. The following definitions follow those words; the theorems below compare
  them with the array pipelines of the code.
\<close>

definition analytic_at :: "tensor \<Rightarrow> int \<Rightarrow> nat \<Rightarrow> nat \<Rightarrow> complex" where
  "analytic_at data ch t s = hilbert_row (data ! t ! nat ch) ! s"

definition phase_difference_at :: "tensor \<Rightarrow> int \<Rightarrow> int \<Rightarrow> nat \<Rightarrow> nat \<Rightarrow> real" where
  "phase_difference_at data ch1 ch2 t s =
     np_angle (analytic_at data ch1 t s) - np_angle (analytic_at data ch2 t s)"

definition trial_mean :: "nat \<Rightarrow> (nat \<Rightarrow> 'a::field) \<Rightarrow> 'a" where
  "trial_mean n f = (\<Sum>t<n. f t) / of_nat n"

definition plv_at :: "tensor \<Rightarrow> int \<Rightarrow> int \<Rightarrow> nat \<Rightarrow> real" where
  "plv_at data ch1 ch2 s =
     cmod (trial_mean (n_trials data)
       (\<lambda>t. exp (\<i> * complex_of_real (phase_difference_at data ch1 ch2 t s))))"

definition iplv_at :: "tensor \<Rightarrow> int \<Rightarrow> int \<Rightarrow> nat \<Rightarrow> real" where
  "iplv_at data ch1 ch2 s =
     \<bar>trial_mean (n_trials data)
       (\<lambda>t. Im (exp (\<i> * complex_of_real (phase_difference_at data ch1 ch2 t s))))\<bar>"

definition pli_at :: "tensor \<Rightarrow> int \<Rightarrow> int \<Rightarrow> nat \<Rightarrow> real" where
  "pli_at data ch1 ch2 s =
     \<bar>trial_mean (n_trials data) (\<lambda>t. sgn (phase_difference_at data ch1 ch2 t s))\<bar>"

definition cross_spectrum_at :: "tensor \<Rightarrow> int \<Rightarrow> int \<Rightarrow> nat \<Rightarrow> nat \<Rightarrow> complex" where
  "cross_spectrum_at data ch1 ch2 t s =
     analytic_at data ch1 t s * cnj (analytic_at data ch2 t s)"

definition wpli_at :: "tensor \<Rightarrow> int \<Rightarrow> int \<Rightarrow> nat \<Rightarrow> npfloat" where
  "wpli_at data ch1 ch2 s =
     np_divide
       \<bar>trial_mean (n_trials data)
          (\<lambda>t. \<bar>Im (cross_spectrum_at data ch1 ch2 t s)\<bar> *
                sgn (Im (cross_spectrum_at data ch1 ch2 t s)))\<bar>
       (trial_mean (n_trials data) (\<lambda>t. \<bar>Im (cross_spectrum_at data ch1 ch2 t s)\<bar>))"

subsection \<open>Auxiliary notions\<close>

text \<open>A two-dimensional array given by its entries.\<close>

definition tabulate2 :: "nat \<Rightarrow> nat \<Rightarrow> (nat \<Rightarrow> nat \<Rightarrow> 'a) \<Rightarrow> 'a list list" where
  "tabulate2 n S f = map (\<lambda>t. map (f t) [0..<S]) [0..<n]"

text \<open>
  Example recordings with two trials, two channels and four samples per row.
  In \<open>quadrature\<close> channel 0 is a cosine and channel 1 the sine of the same frequency;
  the second trial is the first one shifted by one sample. \<open>quadrature_variant\<close> has the
  same first trial and another second trial. In \<open>impulses\<close> each row holds a single impulse.
\<close>

definition quadrature :: tensor where
  "quadrature = [[[1, 0, -1, 0], [0, 1, 0, -1]],
                 [[0, -1, 0, 1], [1, 0, -1, 0]]]"

definition quadrature_variant :: tensor where
  "quadrature_variant = [[[1, 0, -1, 0], [0, 1, 0, -1]],
                         [[5, 0, 2, 1], [0, 0, 7, 0]]]"

definition impulses :: tensor where
  "impulses = [[[1, 0, 0, 0], [0, 1, 0, 0]],
               [[1, 0, 0, 0], [0, -3, 0, 0]]]"

section \<open>Auxiliary facts\<close>

subsection \<open>Shapes\<close>

lemma length_fft [simp]: "length (fft x) = length x"
  by (simp add: fft_def Let_def)

lemma length_ifft [simp]: "length (ifft y) = length y"
  by (simp add: ifft_def Let_def)

lemma length_hilbert_row [simp]: "length (hilbert_row x) = length x"
  by (simp add: hilbert_row_def Let_def)

lemma length_tabulate2 [simp]: "length (tabulate2 n S f) = n"
  by (simp add: tabulate2_def)

lemma nth_tabulate2 [simp]: "t < n \<Longrightarrow> tabulate2 n S f ! t = map (f t) [0..<S]"
  by (simp add: tabulate2_def)

lemma tabulate2_cong:
  assumes "\<And>t s. t < n \<Longrightarrow> s < S \<Longrightarrow> f t s = g t s"
  shows "tabulate2 n S f = tabulate2 n S g"
  using assms by (simp add: tabulate2_def)

lemma rect_tabulate2:
  assumes "\<forall>row \<in> set a. length row = S"
  shows "a = tabulate2 (length a) S (\<lambda>t s. a ! t ! s)"
proof (rule nth_equalityI)
  show "length a = length (tabulate2 (length a) S (\<lambda>t s. a ! t ! s))"
    by simp
next
  fix t assume t: "t < length a"
  then have "length (a ! t) = S"
    using assms by simp
  then have "a ! t = map ((!) (a ! t)) [0..<S]"
    by (metis map_nth)
  then show "a ! t = tabulate2 (length a) S (\<lambda>t s. a ! t ! s) ! t"
    using t by simp
qed

lemma map_map_tabulate2:
  "map (map g) (tabulate2 n S f) = tabulate2 n S (\<lambda>t s. g (f t s))"
  by (simp add: tabulate2_def)

lemma map2_same: "map2 h (map f xs) (map g xs) = map (\<lambda>x. h (f x) (g x)) xs"
  by (induction xs) simp_all

lemma map2_map2_tabulate2:
  "map2 (map2 h) (tabulate2 n S f) (tabulate2 n S g) = tabulate2 n S (\<lambda>t s. h (f t s) (g t s))"
  by (simp add: tabulate2_def map2_same)

lemma shape_last_tabulate2:
  assumes "0 < n"
  shows "shape_last (tabulate2 n S f) = S"
proof -
  have "[0..<n] = 0 # [Suc 0..<n]"
    using assms by (simp add: upt_conv_Cons)
  then show ?thesis
    by (simp add: tabulate2_def shape_last_def)
qed

lemma column_sum_tabulate2:
  "s < S \<Longrightarrow> (\<Sum>row\<leftarrow>tabulate2 n S f. row ! s) = (\<Sum>t<n. f t s)"
proof -
  assume s: "s < S"
  have "map (\<lambda>row. row ! s) (tabulate2 n S f) = map (\<lambda>t. f t s) [0..<n]"
    using s by (simp add: tabulate2_def)
  then show ?thesis
    by (simp add: interv_sum_list_conv_sum_set_nat atLeast0LessThan)
qed

lemma mean_axis0_tabulate2:
  assumes "0 < n"
  shows "mean_axis0 (tabulate2 n S f) = map (\<lambda>s. trial_mean n (\<lambda>t. f t s)) [0..<S]"
  using assms
  by (simp add: mean_axis0_def shape_last_tabulate2 column_sum_tabulate2 trial_mean_def)


subsection \<open>Well-formed tensors\<close>

lemma well_formed_nonempty: "well_formed T \<Longrightarrow> 0 < n_trials T"
  by (simp add: well_formed_def n_trials_def)

lemma well_formed_samples: "well_formed T \<Longrightarrow> 0 < n_samples T"
  by (simp add: well_formed_def)

lemma well_formed_row:
  assumes "well_formed T" "valid_channel T c" "t < n_trials T"
  shows "length (T ! t ! nat c) = n_samples T"
proof -
  have trial: "T ! t \<in> set T"
    using assms(3) by (simp add: n_trials_def)
  then have len: "length (T ! t) = n_channels T"
    using assms(1) by (simp add: well_formed_def)
  have "nat c < n_channels T"
    using assms(2) by (auto simp: valid_channel_def)
  then have "T ! t ! nat c \<in> set (T ! t)"
    using len by simp
  then show ?thesis
    using assms(1) trial by (simp add: well_formed_def)
qed

lemma index_channel_valid:
  "valid_channel T c \<Longrightarrow> index_channel T c = Inr (map (\<lambda>trial. trial ! nat c) T)"
  by (simp add: index_channel_def valid_channel_def Let_def)

lemma slice_rows:
  assumes "well_formed T" "valid_channel T c"
  shows "\<forall>row \<in> set (map (\<lambda>trial. trial ! nat c) T). length row = n_samples T"
proof
  fix row assume "row \<in> set (map (\<lambda>trial. trial ! nat c) T)"
  then obtain t where "t < length T" "row = T ! t ! nat c"
    by (auto simp: in_set_conv_nth)
  then show "length row = n_samples T"
    using well_formed_row [OF assms] by (simp add: n_trials_def)
qed

lemma shape_last_slice:
  assumes "well_formed T" "valid_channel T c"
  shows "shape_last (map (\<lambda>trial. trial ! nat c) T) = n_samples T"
proof -
  obtain trial rest where T: "T = trial # rest"
    using assms(1) by (cases T) (simp_all add: well_formed_def)
  have "length (T ! 0 ! nat c) = n_samples T"
    using well_formed_row [OF assms, of 0] T by (simp add: n_trials_def)
  then show ?thesis
    using T by (simp add: shape_last_def)
qed

lemma analytic_signal_valid:
  assumes "well_formed T" "valid_channel T c"
  shows "hilbert (map (\<lambda>trial. trial ! nat c) T) =
           Inr (tabulate2 (n_trials T) (n_samples T) (analytic_at T c))"
proof -
  let ?a = "map hilbert_row (map (\<lambda>trial. trial ! nat c) T)"
  have rows: "\<forall>row \<in> set ?a. length row = n_samples T"
    using slice_rows [OF assms] by auto
  have "?a = tabulate2 (length ?a) (n_samples T) (\<lambda>t s. ?a ! t ! s)"
    by (rule rect_tabulate2 [OF rows])
  also have "\<dots> = tabulate2 (n_trials T) (n_samples T) (analytic_at T c)"
    unfolding n_trials_def length_map
    by (rule tabulate2_cong) (simp add: analytic_at_def)
  finally have "?a = tabulate2 (n_trials T) (n_samples T) (analytic_at T c)" .
  then show ?thesis
    using well_formed_samples [OF assms(1)]
    by (simp add: hilbert_def shape_last_slice [OF assms])
qed

subsection \<open>The array pipelines, entry by entry\<close>

lemma calculate_cross_spectrum_hilbert_valid:
  assumes "well_formed T" "valid_channel T ch1" "valid_channel T ch2"
  shows "calculate_cross_spectrum_hilbert T ch1 ch2 =
           Inr (tabulate2 (n_trials T) (n_samples T) (cross_spectrum_at T ch1 ch2))"
proof -
  have "cross_spectrum_at T ch1 ch2 =
          (\<lambda>t s. analytic_at T ch1 t s * cnj (analytic_at T ch2 t s))"
    by (simp add: fun_eq_iff cross_spectrum_at_def)
  then show ?thesis
    by (simp add: calculate_cross_spectrum_hilbert_def index_channel_valid assms
        analytic_signal_valid map_map_tabulate2 map2_map2_tabulate2)
qed

lemma calculate_plv_valid:
  assumes "well_formed T" "valid_channel T ch1" "valid_channel T ch2"
  shows "calculate_plv T ch1 ch2 = Inr (map (plv_at T ch1 ch2) [0..<n_samples T])"
  by (simp add: calculate_plv_def index_channel_valid assms analytic_signal_valid
      map_map_tabulate2 map2_map2_tabulate2 mean_axis0_tabulate2 well_formed_nonempty
      plv_at_def phase_difference_at_def Let_def)

lemma calculate_iplv_valid:
  assumes "well_formed T" "valid_channel T ch1" "valid_channel T ch2"
  shows "calculate_iplv T ch1 ch2 = Inr (map (iplv_at T ch1 ch2) [0..<n_samples T])"
  by (simp add: calculate_iplv_def index_channel_valid assms analytic_signal_valid
      map_map_tabulate2 map2_map2_tabulate2 mean_axis0_tabulate2 well_formed_nonempty
      iplv_at_def phase_difference_at_def Let_def)

lemma calculate_pli_valid:
  assumes "well_formed T" "valid_channel T ch1" "valid_channel T ch2"
  shows "calculate_pli T ch1 ch2 = Inr (map (pli_at T ch1 ch2) [0..<n_samples T])"
  by (simp add: calculate_pli_def index_channel_valid assms analytic_signal_valid
      map_map_tabulate2 map2_map2_tabulate2 mean_axis0_tabulate2 well_formed_nonempty
      pli_at_def phase_difference_at_def Let_def)

lemma calculate_wpli_valid:
  assumes "well_formed T" "valid_channel T ch1" "valid_channel T ch2"
  shows "calculate_wpli T ch1 ch2 = Inr (map (wpli_at T ch1 ch2) [0..<n_samples T])"
  by (simp add: calculate_wpli_def calculate_cross_spectrum_hilbert_valid assms
      map_map_tabulate2 mean_axis0_tabulate2 well_formed_nonempty map2_same
      wpli_at_def Let_def)

subsection \<open>Rows of four samples and the example recordings\<close>

lemma cis_quarter_turns: "cis (2 * pi * real k * real n / 4) = \<i> ^ (k * n)"
proof -
  have "cis (2 * pi * real k * real n / 4) = cis (real (k * n) * (pi / 2))"
    by (simp add: field_simps)
  also have "\<dots> = cis (pi / 2) ^ (k * n)"
    by (simp only: DeMoivre)
  finally show ?thesis by simp
qed

lemma cis_neg_quarter_turns: "cis (- (2 * pi * real k * real n / 4)) = (- \<i>) ^ (k * n)"
proof -
  have "cis (- (2 * pi * real k * real n / 4)) = cnj (cis (2 * pi * real k * real n / 4))"
    by (simp add: cis_cnj)
  also have "\<dots> = (- \<i>) ^ (k * n)"
    by (simp only: cis_quarter_turns complex_cnj_power complex_cnj_i)
  finally show ?thesis .
qed

lemma lessThan_4: "{..<4::nat} = {0, 1, 2, 3}"
  by auto

lemma upt_4: "[0..<4] = [0, 1, 2, 3]"
  by (simp add: upt_conv_Cons)

lemma fft_length_4:
  assumes "length x = 4"
  shows "fft x = map (\<lambda>k. \<Sum>n<4. x ! n * (- \<i>) ^ (k * n)) [0..<4]"
  unfolding fft_def Let_def assms
  by (simp only: of_nat_numeral cis_neg_quarter_turns)

lemma ifft_length_4:
  assumes "length y = 4"
  shows "ifft y = map (\<lambda>n. (\<Sum>k<4. y ! k * \<i> ^ (k * n)) / 4) [0..<4]"
  unfolding ifft_def Let_def assms
  by (simp only: of_nat_numeral cis_quarter_turns)

lemma fft_4:
  "fft [a, b, c, d] =
     [a + b + c + d, a - \<i> * b - c + \<i> * d, a - b + c - d, a + \<i> * b - c - \<i> * d]"
  by (simp add: fft_length_4 lessThan_4 upt_4 power_numeral_reduce algebra_simps)

lemma ifft_4:
  "ifft [a, b, c, d] =
     [(a + b + c + d) / 4, (a + \<i> * b - c - \<i> * d) / 4, (a - b + c - d) / 4,
      (a - \<i> * b - c + \<i> * d) / 4]"
  by (simp add: ifft_length_4 lessThan_4 upt_4 power_numeral_reduce algebra_simps)

lemma hilbert_row_4:
  "hilbert_row [a, b, c, d] =
     [Complex a ((d - b) / 2), Complex b ((a - c) / 2),
      Complex c ((b - d) / 2), Complex d ((c - a) / 2)]"
  by (simp add: hilbert_row_def Let_def fft_4 ifft_4 upt_4 hilbert_h_def complex_eq_iff)

lemma well_formed_quadrature: "well_formed quadrature"
  by (simp add: well_formed_def quadrature_def n_samples_def n_channels_def)

lemma n_quadrature: "n_trials quadrature = 2" "n_channels quadrature = 2" "n_samples quadrature = 4"
  by (simp_all add: quadrature_def n_trials_def n_samples_def n_channels_def)

lemma analytic_quadrature:
  "analytic_signal quadrature 0 = Inr [[1, \<i>, -1, -\<i>], [\<i>, -1, -\<i>, 1]]"
  "analytic_signal quadrature 1 = Inr [[-\<i>, 1, \<i>, -1], [1, \<i>, -1, -\<i>]]"
  by (simp_all add: analytic_signal_def index_channel_def n_channels_def quadrature_def
      hilbert_def shape_last_def hilbert_row_4 complex_eq_iff)

lemma exp_i_cis: "exp (\<i> * complex_of_real x) = cis x"
  by (simp add: cis_conv_exp)

lemma cis_three_quarters: "cis (3 * pi / 2) = - \<i>" "cis (- (3 * pi / 2)) = \<i>"
proof -
  have "cis (3 * pi / 2) = cis pi * cis (pi / 2)"
    by (simp only: cis_mult) (simp add: field_simps)
  then show a: "cis (3 * pi / 2) = - \<i>"
    by simp
  have "cis (- (3 * pi / 2)) = cnj (cis (3 * pi / 2))"
    by (simp only: cis_cnj)
  then show "cis (- (3 * pi / 2)) = \<i>"
    by (simp only: a) simp
qed

lemma sin_three_quarters: "sin (3 * pi / 2) = - 1"
  using cis_three_quarters(1) by (simp add: complex_eq_iff)

lemmas eval_simps = cis_three_quarters sin_three_quarters
  index_channel_def n_channels_def hilbert_def shape_last_def hilbert_row_4
  np_angle_def arctan2_def mean_axis0_def exp_i_cis np_divide_def

lemma plv_quadrature: "calculate_plv quadrature 0 1 = Inr [1, 1, 1, 1]"
  by (simp add: calculate_plv_def quadrature_def eval_simps)

lemma plv_quadrature_neg: "calculate_plv quadrature (-1) 0 = Inr [1, 1, 1, 1]"
  by (simp add: calculate_plv_def quadrature_def eval_simps)

lemma iplv_quadrature: "calculate_iplv quadrature 0 1 = Inr [1, 1, 1, 1]"
  by (simp add: calculate_iplv_def quadrature_def eval_simps)

lemma pli_quadrature: "calculate_pli quadrature 0 1 = Inr [1, 1, 0, 0]"
  by (simp add: calculate_pli_def quadrature_def eval_simps)

lemma wpli_quadrature: "calculate_wpli quadrature 0 1 = Inr [Fin 1, Fin 1, Fin 1, Fin 1]"
  by (simp add: calculate_wpli_def calculate_cross_spectrum_hilbert_def quadrature_def eval_simps)

lemma wpli_impulses: "calculate_wpli impulses 0 1 = Inr [Fin (1/2), Fin (1/2), NaN, NaN]"
  by (simp add: calculate_wpli_def calculate_cross_spectrum_hilbert_def impulses_def eval_simps)

lemma cross_impulses: "calculate_cross_spectrum_hilbert impulses 0 1 = Inr [[\<i> / 2, \<i> / 2, 0, 0], [- (3 * \<i> / 2), - (3 * \<i> / 2), 0, 0]]"
  by (simp add: calculate_cross_spectrum_hilbert_def impulses_def eval_simps complex_eq_iff)

lemma valid_quadrature: "valid_channel quadrature 0" "valid_channel quadrature 1"
  by (simp_all add: valid_channel_def n_quadrature)

lemma well_formed_impulses: "well_formed impulses"
  by (simp add: well_formed_def impulses_def n_samples_def n_channels_def)

lemma n_impulses: "n_trials impulses = 2" "n_channels impulses = 2" "n_samples impulses = 4"
  by (simp_all add: impulses_def n_trials_def n_samples_def n_channels_def)

lemma valid_impulses: "valid_channel impulses 0" "valid_channel impulses 1"
  by (simp_all add: valid_channel_def n_impulses)

subsection \<open>Trial means\<close>

lemma trial_mean_const: "0 < n \<Longrightarrow> trial_mean n (\<lambda>t. c) = (c :: 'a :: field_char_0)"
  by (simp add: trial_mean_def)

lemma trial_mean_zero: "trial_mean n (\<lambda>t. 0) = 0"
  by (simp add: trial_mean_def)

lemma trial_mean_all_zero:
  assumes "\<And>t. t < n \<Longrightarrow> f t = 0"
  shows "trial_mean n f = 0"
  using assms by (simp add: trial_mean_def)

lemma wpli_at_zero_denominator:
  assumes "\<And>t. t < n_trials T \<Longrightarrow> Im (cross_spectrum_at T ch1 ch2 t s) = 0"
  shows "wpli_at T ch1 ch2 s = NaN"
proof -
  have "trial_mean (n_trials T) (\<lambda>t. \<bar>Im (cross_spectrum_at T ch1 ch2 t s)\<bar>) = 0"
    by (rule trial_mean_all_zero) (simp add: assms)
  moreover have "trial_mean (n_trials T)
      (\<lambda>t. \<bar>Im (cross_spectrum_at T ch1 ch2 t s)\<bar> * sgn (Im (cross_spectrum_at T ch1 ch2 t s))) = 0"
    by (rule trial_mean_all_zero) (simp add: assms)
  ultimately show ?thesis
    by (simp add: wpli_at_def np_divide_def)
qed

lemma cross_spectrum_entry:
  assumes "well_formed T" "valid_channel T ch1" "valid_channel T ch2"
    and "calculate_cross_spectrum_hilbert T ch1 ch2 = Inr cs"
    and "t < n_trials T" "s < n_samples T"
  shows "cs ! t ! s = cross_spectrum_at T ch1 ch2 t s"
  using assms(4-6) by (simp add: calculate_cross_spectrum_hilbert_valid [OF assms(1-3)]) auto

section \<open>Properties of the measures\<close>

text \<open>
  C1. The specification asks that, at a sample where the imaginary part of the
  cross-spectrum is zero in every trial, \<open>calculate_wpli\<close> produce a defined policy value
  instead of the undefined result of the division. The code divides without a guard. In \<open>impulses\<close> the imaginary
  part of the cross-spectrum vanishes in both trials at samples 2 and 3, and the value
  returned there is the \<open>NaN\<close> of \<open>0 / 0\<close>.
\<close>

theorem wpli_policy_counterexample:
  "calculate_cross_spectrum_hilbert impulses 0 1 =
     Inr [[\<i> / 2, \<i> / 2, 0, 0], [- (3 * \<i> / 2), - (3 * \<i> / 2), 0, 0]] \<and>
   calculate_wpli impulses 0 1 = Inr [Fin (1 / 2), Fin (1 / 2), NaN, NaN] \<and>
   np_divide 0 0 = NaN"
  by (simp add: cross_impulses wpli_impulses np_divide_def)

text \<open>
  C1, as the code has it: at a sample where the imaginary part of the cross-spectrum is
  zero in every trial, the denominator is zero and \<open>calculate_wpli\<close> returns \<open>NaN\<close> at that
  sample, the result of the unguarded division \<open>0 / 0\<close>.
\<close>

theorem wpli_zero_denominator_nan:
  assumes "well_formed T" "valid_channel T ch1" "valid_channel T ch2"
    and "calculate_cross_spectrum_hilbert T ch1 ch2 = Inr cs"
    and "s < n_samples T"
    and "\<forall>t<n_trials T. Im (cs ! t ! s) = 0"
  shows "trial_mean (n_trials T) (\<lambda>t. \<bar>Im (cs ! t ! s)\<bar>) = 0 \<and>
         (\<exists>wpli. calculate_wpli T ch1 ch2 = Inr wpli \<and> wpli ! s = NaN)"
proof -
  have zero: "Im (cross_spectrum_at T ch1 ch2 t s) = 0" if "t < n_trials T" for t
  proof -
    have entry: "cross_spectrum_at T ch1 ch2 t s = cs ! t ! s"
      using cross_spectrum_entry [OF assms(1-4) that assms(5)] by simp
    show ?thesis
      unfolding entry using assms(6) that by blast
  qed
  have "trial_mean (n_trials T) (\<lambda>t. \<bar>Im (cs ! t ! s)\<bar>) = 0"
    by (rule trial_mean_all_zero) (simp add: assms(6))
  moreover have "wpli_at T ch1 ch2 s = NaN"
    by (rule wpli_at_zero_denominator) (rule zero)
  ultimately show ?thesis
    using assms(5) by (simp add: calculate_wpli_valid [OF assms(1-3)])
qed

theorem wpli_zero_denominator_nan_witness:
  "well_formed impulses \<and> valid_channel impulses 0 \<and> valid_channel impulses 1 \<and>
   n_trials impulses = 2 \<and> (2::nat) < n_samples impulses \<and>
   calculate_cross_spectrum_hilbert impulses 0 1 =
     Inr [[\<i> / 2, \<i> / 2, 0, 0], [- (3 * \<i> / 2), - (3 * \<i> / 2), 0, 0]] \<and>
   Im ([[\<i> / 2, \<i> / 2, 0, 0], [- (3 * \<i> / 2), - (3 * \<i> / 2), 0, 0]] ! 0 ! 2) = 0 \<and>
   Im ([[\<i> / 2, \<i> / 2, 0, 0], [- (3 * \<i> / 2), - (3 * \<i> / 2), 0, 0]] ! 1 ! 2) = 0 \<and>
   (\<exists>wpli. calculate_wpli impulses 0 1 = Inr wpli \<and> wpli ! 2 = NaN)"
proof -
  have zero: "\<forall>t<n_trials impulses.
      Im ([[\<i> / 2, \<i> / 2, 0, 0], [- (3 * \<i> / 2), - (3 * \<i> / 2), 0, 0]] ! t ! 2) = 0"
    by (simp add: n_impulses less_Suc_eq numeral_2_eq_2)
  have s: "(2::nat) < n_samples impulses"
    by (simp add: n_impulses)
  show ?thesis
    using wpli_zero_denominator_nan [OF well_formed_impulses valid_impulses cross_impulses s zero]
      well_formed_impulses valid_impulses s cross_impulses
    by (simp add: n_impulses)
qed

text \<open>
  C3. The specification says that every integer channel index outside
  \<open>[0, channel_count)\<close>, negative ones included, makes each function fail. NumPy counts a negative index from the end of the
  axis: in \<open>quadrature\<close>, which has two channels, index \<open>-1\<close> is not in \<open>[0, 2)\<close> and
  \<open>calculate_plv\<close> returns a result for it.
\<close>

theorem negative_index_counterexample:
  "\<not> valid_channel quadrature (- 1) \<and> calculate_plv quadrature (- 1) 0 = Inr [1, 1, 1, 1]"
  by (simp add: plv_quadrature_neg valid_channel_def)

text \<open>
  C3, as the code has it: for every tensor and every integer channel index outside
  \<open>[- channel_count, channel_count)\<close>, each of the four functions fails with
  \<open>IndexError\<close> and returns nothing else.
\<close>

theorem index_out_of_range_fails:
  assumes "ch1 < - int (n_channels T) \<or> int (n_channels T) \<le> ch1 \<or>
           ch2 < - int (n_channels T) \<or> int (n_channels T) \<le> ch2"
  shows "calculate_plv T ch1 ch2 = Inl IndexError \<and>
         calculate_iplv T ch1 ch2 = Inl IndexError \<and>
         calculate_pli T ch1 ch2 = Inl IndexError \<and>
         calculate_wpli T ch1 ch2 = Inl IndexError"
proof -
  have "index_channel T ch1 = Inl IndexError \<or>
        (\<exists>d. index_channel T ch1 = Inr d \<and> index_channel T ch2 = Inl IndexError)"
    using assms by (auto simp: index_channel_def Let_def)
  then show ?thesis
    by (auto simp: calculate_plv_def calculate_iplv_def calculate_pli_def calculate_wpli_def
        calculate_cross_spectrum_hilbert_def)
qed

theorem index_out_of_range_fails_witness:
  "int (n_channels quadrature) \<le> 2 \<and>
   calculate_plv quadrature 2 0 = Inl IndexError \<and>
   calculate_iplv quadrature 2 0 = Inl IndexError \<and>
   calculate_pli quadrature 2 0 = Inl IndexError \<and>
   calculate_wpli quadrature 2 0 = Inl IndexError \<and>
   - 3 < - int (n_channels quadrature) \<and>
   calculate_plv quadrature 0 (- 3) = Inl IndexError \<and>
   calculate_iplv quadrature 0 (- 3) = Inl IndexError \<and>
   calculate_pli quadrature 0 (- 3) = Inl IndexError \<and>
   calculate_wpli quadrature 0 (- 3) = Inl IndexError"
  using index_out_of_range_fails [of 2 quadrature 0]
    index_out_of_range_fails [of 0 quadrature "- 3"]
  by (simp add: n_quadrature)

text \<open>
  C4. For a well-formed tensor and a valid channel pair, \<open>calculate_plv\<close> returns, at each
  sample, the magnitude of the arithmetic mean over the trials of
  \<open>exp(i (angle(analytic ch1) - angle(analytic ch2)))\<close>; the difference of the two angles
  enters the exponential as it is, without being wrapped.
\<close>

theorem calculate_plv_spec:
  assumes "well_formed T" "valid_channel T ch1" "valid_channel T ch2"
  shows "calculate_plv T ch1 ch2 =
     Inr (map (\<lambda>s. cmod (trial_mean (n_trials T)
            (\<lambda>t. exp (\<i> * complex_of_real
               (np_angle (analytic_at T ch1 t s) - np_angle (analytic_at T ch2 t s))))))
          [0..<n_samples T])"
  using calculate_plv_valid [OF assms]
  by (simp add: plv_at_def phase_difference_at_def)

theorem calculate_plv_spec_witness:
  "well_formed quadrature \<and> valid_channel quadrature 0 \<and> valid_channel quadrature 1 \<and>
   map (\<lambda>s. cmod (trial_mean (n_trials quadrature)
            (\<lambda>t. exp (\<i> * complex_of_real
               (np_angle (analytic_at quadrature 0 t s) - np_angle (analytic_at quadrature 1 t s))))))
          [0..<n_samples quadrature] = [1, 1, 1, 1]"
  using calculate_plv_spec [OF well_formed_quadrature valid_quadrature]
    well_formed_quadrature valid_quadrature plv_quadrature
  by simp

text \<open>
  C5. \<open>calculate_iplv\<close> follows the pipeline of \<open>calculate_plv\<close> up to the complex
  exponential, takes the imaginary part of every per-trial value, then the mean over the
  trials, then the absolute value.
\<close>

theorem calculate_iplv_spec:
  assumes "well_formed T" "valid_channel T ch1" "valid_channel T ch2"
  shows "calculate_iplv T ch1 ch2 =
     Inr (map (\<lambda>s. \<bar>trial_mean (n_trials T)
            (\<lambda>t. Im (exp (\<i> * complex_of_real
               (np_angle (analytic_at T ch1 t s) - np_angle (analytic_at T ch2 t s)))))\<bar>)
          [0..<n_samples T])"
  using calculate_iplv_valid [OF assms]
  by (simp add: iplv_at_def phase_difference_at_def)

theorem calculate_iplv_spec_witness:
  "well_formed quadrature \<and> valid_channel quadrature 0 \<and> valid_channel quadrature 1 \<and>
   map (\<lambda>s. \<bar>trial_mean (n_trials quadrature)
            (\<lambda>t. Im (exp (\<i> * complex_of_real
               (np_angle (analytic_at quadrature 0 t s) - np_angle (analytic_at quadrature 1 t s)))))\<bar>)
          [0..<n_samples quadrature] = [1, 1, 1, 1]"
  using calculate_iplv_spec [OF well_formed_quadrature valid_quadrature]
    well_formed_quadrature valid_quadrature iplv_quadrature
  by simp

text \<open>
  C6. \<open>calculate_pli\<close> returns, at each sample, the absolute value of the mean over the
  trials of the sign of the raw difference \<open>angle(analytic ch1) - angle(analytic ch2)\<close>:
  no complex exponential and no wrapping into \<open>[-pi, pi]\<close> come before the sign.
\<close>

theorem calculate_pli_spec:
  assumes "well_formed T" "valid_channel T ch1" "valid_channel T ch2"
  shows "calculate_pli T ch1 ch2 =
     Inr (map (\<lambda>s. \<bar>trial_mean (n_trials T)
            (\<lambda>t. sgn (np_angle (analytic_at T ch1 t s) - np_angle (analytic_at T ch2 t s)))\<bar>)
          [0..<n_samples T])"
  using calculate_pli_valid [OF assms]
  by (simp add: pli_at_def phase_difference_at_def)

theorem calculate_pli_spec_witness:
  "well_formed quadrature \<and> valid_channel quadrature 0 \<and> valid_channel quadrature 1 \<and>
   map (\<lambda>s. \<bar>trial_mean (n_trials quadrature)
            (\<lambda>t. sgn (np_angle (analytic_at quadrature 0 t s) - np_angle (analytic_at quadrature 1 t s)))\<bar>)
          [0..<n_samples quadrature] = [1, 1, 0, 0]"
  using calculate_pli_spec [OF well_formed_quadrature valid_quadrature]
    well_formed_quadrature valid_quadrature pli_quadrature
  by simp

text \<open>
  C8. For a well-formed tensor and a valid channel \<open>c\<close>, comparing the channel with itself
  gives \<open>calculate_plv = 1\<close> and \<open>calculate_pli = 0\<close> at every sample.
\<close>

theorem self_comparison:
  assumes "well_formed T" "valid_channel T c"
  shows "calculate_plv T c c = Inr (replicate (n_samples T) 1) \<and>
         calculate_pli T c c = Inr (replicate (n_samples T) 0)"
proof -
  note n = well_formed_nonempty [OF assms(1)]
  have "plv_at T c c s = 1" for s
    using n by (simp add: plv_at_def phase_difference_at_def trial_mean_const)
  moreover have "pli_at T c c s = 0" for s
    by (simp add: pli_at_def phase_difference_at_def trial_mean_zero)
  ultimately have "map (plv_at T c c) [0..<n_samples T] = replicate (n_samples T) 1"
    and "map (pli_at T c c) [0..<n_samples T] = replicate (n_samples T) 0"
    by (simp_all add: map_replicate_const [of _ "[0..<n_samples T]", simplified, symmetric])
  then show ?thesis
    by (simp add: calculate_plv_valid calculate_pli_valid assms)
qed

theorem self_comparison_witness:
  "well_formed quadrature \<and> valid_channel quadrature 1 \<and>
   calculate_plv quadrature 1 1 = Inr [1, 1, 1, 1] \<and>
   calculate_pli quadrature 1 1 = Inr [0, 0, 0, 0]"
  using self_comparison [OF well_formed_quadrature valid_quadrature(2)]
    well_formed_quadrature valid_quadrature
  by (simp add: n_quadrature numeral_eq_Suc)

text \<open>
  C9. The analytic signal is computed trial by trial: when two well-formed tensors agree
  on the row of trial \<open>t\<close> in the selected channels, the analytic signals and the
  cross-spectrum agree on trial \<open>t\<close>, whatever the other trials hold.
\<close>

theorem trial_independence:
  assumes "well_formed T1" "well_formed T2"
    and "valid_channel T1 ch1" "valid_channel T1 ch2"
    and "valid_channel T2 ch1" "valid_channel T2 ch2"
    and "t < n_trials T1" "t < n_trials T2"
    and "T1 ! t ! nat ch1 = T2 ! t ! nat ch1"
    and "T1 ! t ! nat ch2 = T2 ! t ! nat ch2"
  shows "\<exists>a1 a2 b1 b2 s1 s2.
           analytic_signal T1 ch1 = Inr a1 \<and> analytic_signal T2 ch1 = Inr a2 \<and>
           analytic_signal T1 ch2 = Inr b1 \<and> analytic_signal T2 ch2 = Inr b2 \<and>
           calculate_cross_spectrum_hilbert T1 ch1 ch2 = Inr s1 \<and>
           calculate_cross_spectrum_hilbert T2 ch1 ch2 = Inr s2 \<and>
           a1 ! t = a2 ! t \<and> b1 ! t = b2 ! t \<and> s1 ! t = s2 ! t"
proof -
  have S: "n_samples T1 = n_samples T2"
    using well_formed_row [OF assms(1,3,7)] well_formed_row [OF assms(2,5,8)] assms(9)
    by simp
  have a: "analytic_at T1 ch1 t = analytic_at T2 ch1 t"
    by (simp add: fun_eq_iff analytic_at_def assms(9))
  have b: "analytic_at T1 ch2 t = analytic_at T2 ch2 t"
    by (simp add: fun_eq_iff analytic_at_def assms(10))
  have c: "cross_spectrum_at T1 ch1 ch2 t = cross_spectrum_at T2 ch1 ch2 t"
    using a b by (simp add: fun_eq_iff cross_spectrum_at_def)
  show ?thesis
    using assms(7,8) a b c S
    by (simp add: analytic_signal_def index_channel_valid analytic_signal_valid
        calculate_cross_spectrum_hilbert_valid assms(1-6))
qed


theorem trial_independence_witness:
  "well_formed quadrature \<and> well_formed quadrature_variant \<and>
   valid_channel quadrature 0 \<and> valid_channel quadrature 1 \<and>
   valid_channel quadrature_variant 0 \<and> valid_channel quadrature_variant 1 \<and>
   0 < n_trials quadrature \<and> 0 < n_trials quadrature_variant \<and>
   quadrature ! 0 ! nat 0 = quadrature_variant ! 0 ! nat 0 \<and>
   quadrature ! 0 ! nat 1 = quadrature_variant ! 0 ! nat 1 \<and>
   quadrature ! 1 \<noteq> quadrature_variant ! 1 \<and>
   (\<exists>a1 a2 b1 b2 s1 s2.
       analytic_signal quadrature 0 = Inr a1 \<and> analytic_signal quadrature_variant 0 = Inr a2 \<and>
       analytic_signal quadrature 1 = Inr b1 \<and> analytic_signal quadrature_variant 1 = Inr b2 \<and>
       calculate_cross_spectrum_hilbert quadrature 0 1 = Inr s1 \<and>
       calculate_cross_spectrum_hilbert quadrature_variant 0 1 = Inr s2 \<and>
       a1 ! 0 = a2 ! 0 \<and> b1 ! 0 = b2 ! 0 \<and> s1 ! 0 = s2 ! 0)"
proof -
  have wf: "well_formed quadrature_variant"
    by (simp add: well_formed_def quadrature_variant_def n_samples_def n_channels_def)
  have v: "valid_channel quadrature_variant 0" "valid_channel quadrature_variant 1"
    by (simp_all add: valid_channel_def quadrature_variant_def n_channels_def)
  have n: "0 < n_trials quadrature" "0 < n_trials quadrature_variant"
    by (simp_all add: n_trials_def quadrature_def quadrature_variant_def)
  have r0: "quadrature ! 0 ! nat 0 = quadrature_variant ! 0 ! nat 0"
    by (simp add: quadrature_def quadrature_variant_def)
  have r1: "quadrature ! 0 ! nat 1 = quadrature_variant ! 0 ! nat 1"
    by (simp add: quadrature_def quadrature_variant_def)
  have other: "quadrature ! 1 \<noteq> quadrature_variant ! 1"
    by (simp add: quadrature_def quadrature_variant_def)
  show ?thesis
    using trial_independence [OF well_formed_quadrature wf valid_quadrature v n r0 r1]
      well_formed_quadrature wf valid_quadrature v n r0 r1 other
    by blast
qed

text \<open>
  C10. For a well-formed tensor and a valid channel pair, each of the four functions
  returns a list with exactly one value per sample.
\<close>

theorem result_length:
  assumes "well_formed T" "valid_channel T ch1" "valid_channel T ch2"
  shows "(\<exists>plv. calculate_plv T ch1 ch2 = Inr plv \<and> length plv = n_samples T) \<and>
         (\<exists>iplv. calculate_iplv T ch1 ch2 = Inr iplv \<and> length iplv = n_samples T) \<and>
         (\<exists>pli. calculate_pli T ch1 ch2 = Inr pli \<and> length pli = n_samples T) \<and>
         (\<exists>wpli. calculate_wpli T ch1 ch2 = Inr wpli \<and> length wpli = n_samples T)"
  by (simp add: calculate_plv_valid calculate_iplv_valid calculate_pli_valid
      calculate_wpli_valid assms)

theorem result_length_witness:
  "well_formed impulses \<and> valid_channel impulses 0 \<and> valid_channel impulses 1 \<and>
   n_samples impulses = 4 \<and>
   (\<exists>wpli. calculate_wpli impulses 0 1 = Inr wpli \<and> length wpli = 4)"
  using result_length [OF well_formed_impulses valid_impulses]
    well_formed_impulses valid_impulses
  by (simp add: n_impulses)

end
